theory Spec2Isabelle
  imports Main "HOL-Library.Word"
begin

section \<open>JavaScript values\<close>

text \<open>
  The schema code works on generic nested data (decoded service definitions, response
  payloads) and on class instances whose fields are assigned in a constructor. Both are
  JavaScript objects, so both are modelled as property lists: an object is the list of its
  own properties in enumeration order, with pairwise distinct keys. Numbers are the integers
  the definitions use (milliseconds, counts).
\<close>

datatype val =
    Undefined
  | Null
  | Bool bool
  | Num int
  | Str string
  | Arr "val list"
  | Obj "(string \<times> val) list"

text \<open>
  What a JavaScript operation can end with instead of a value: the engine's \<open>TypeError\<close>
  (a member of \<open>undefined\<close>/\<open>null\<close> is read, or a non-function is called), an
  \<open>Error\<close> the code throws itself with its message, and \<open>Outside_model\<close> for a read
  that reaches a member of one of the engine's built-in prototypes (\<open>toString\<close>,
  \<open>map\<close>, ...), which this development does not describe.
\<close>

datatype error = TypeError | Error string | Outside_model

definition bind_err :: "error + 'a \<Rightarrow> ('a \<Rightarrow> error + 'b) \<Rightarrow> error + 'b" where
  "bind_err r f = (case r of Inl e \<Rightarrow> Inl e | Inr v \<Rightarrow> f v)"

type_synonym object = "(string \<times> val) list"

text \<open>\<open>o.k\<close> for a fixed field \<open>k\<close> of an instance: the own property, or \<open>undefined\<close>.\<close>

definition own :: "object \<Rightarrow> string \<Rightarrow> val" where
  "own ps k = (case map_of ps k of None \<Rightarrow> Undefined | Some v \<Rightarrow> v)"

text \<open>Default parameter values apply exactly when the argument is \<open>undefined\<close>.\<close>

definition dflt :: "val \<Rightarrow> val \<Rightarrow> val" where
  "dflt d v = (if v = Undefined then d else v)"

definition truthy :: "val \<Rightarrow> bool" where
  "truthy v = (case v of Undefined \<Rightarrow> False | Null \<Rightarrow> False | Bool b \<Rightarrow> b
     | Num n \<Rightarrow> n \<noteq> 0 | Str s \<Rightarrow> s \<noteq> [] | Arr xs \<Rightarrow> True | Obj ps \<Rightarrow> True)"

definition digit :: "nat \<Rightarrow> char" where
  "digit d = ''0123456789'' ! d"

fun string_of_nat :: "nat \<Rightarrow> string" where
  "string_of_nat n =
     (if n < 10 then [digit n] else string_of_nat (n div 10) @ [digit (n mod 10)])"

declare string_of_nat.simps [simp del]

definition string_of_int :: "int \<Rightarrow> string" where
  "string_of_int i = (if i < 0 then CHR ''-'' # string_of_nat (nat (- i)) else string_of_nat (nat i))"

text \<open>An array index key is the canonical decimal spelling of a position below the length.\<close>

definition index_of :: "string \<Rightarrow> nat \<Rightarrow> nat option" where
  "index_of k n = find (\<lambda>i. string_of_nat i = k) [0..<n]"

text \<open>
  The string-keyed members of \<open>Object.prototype\<close>, \<open>Array.prototype\<close>,
  \<open>String.prototype\<close>, \<open>Number.prototype\<close> and \<open>Boolean.prototype\<close>, taken together
  over the language editions up to ES2023. A computed read \<open>v[k]\<close> with such a \<open>k\<close> that
  is not an own property yields a built-in of the engine.
\<close>

definition builtin_member_names :: "string list" where
  "builtin_member_names =
    [''constructor'', ''__proto__'', ''__defineGetter__'', ''__defineSetter__'',
     ''__lookupGetter__'', ''__lookupSetter__'', ''hasOwnProperty'', ''isPrototypeOf'',
     ''propertyIsEnumerable'', ''toString'', ''toLocaleString'', ''valueOf'',
     ''length'', ''at'', ''concat'', ''copyWithin'', ''entries'', ''every'', ''fill'',
     ''filter'', ''find'', ''findIndex'', ''findLast'', ''findLastIndex'', ''flat'',
     ''flatMap'', ''forEach'', ''includes'', ''indexOf'', ''join'', ''keys'',
     ''lastIndexOf'', ''map'', ''pop'', ''push'', ''reduce'', ''reduceRight'', ''reverse'',
     ''shift'', ''slice'', ''some'', ''sort'', ''splice'', ''toReversed'', ''toSorted'',
     ''toSpliced'', ''unshift'', ''values'', ''with'',
     ''anchor'', ''big'', ''blink'', ''bold'', ''charAt'', ''charCodeAt'', ''codePointAt'',
     ''endsWith'', ''fixed'', ''fontcolor'', ''fontsize'', ''isWellFormed'', ''italics'',
     ''link'', ''localeCompare'', ''match'', ''matchAll'', ''normalize'', ''padEnd'',
     ''padStart'', ''repeat'', ''replace'', ''replaceAll'', ''search'', ''small'', ''split'',
     ''startsWith'', ''strike'', ''sub'', ''substr'', ''substring'', ''sup'',
     ''toLocaleLowerCase'', ''toLocaleUpperCase'', ''toLowerCase'', ''toUpperCase'',
     ''toWellFormed'', ''trim'', ''trimEnd'', ''trimLeft'', ''trimRight'', ''trimStart'',
     ''toExponential'', ''toFixed'', ''toPrecision'']"

definition inherited :: "string \<Rightarrow> error + val" where
  "inherited k = (if k \<in> set builtin_member_names then Inl Outside_model else Inr Undefined)"

text \<open>
  The read \<open>v[k]\<close> (and \<open>v.k\<close>): a \<open>TypeError\<close> on \<open>undefined\<close> and \<open>null\<close>; the own
  property of an object; the element or the \<open>length\<close> of an array or a string; otherwise
  what the prototype chain gives, which is \<open>undefined\<close> unless \<open>k\<close> names a built-in.
\<close>

definition js_get :: "val \<Rightarrow> string \<Rightarrow> error + val" where
  "js_get v k = (case v of
       Undefined \<Rightarrow> Inl TypeError
     | Null \<Rightarrow> Inl TypeError
     | Obj ps \<Rightarrow> (case map_of ps k of Some u \<Rightarrow> Inr u | None \<Rightarrow> inherited k)
     | Arr xs \<Rightarrow> (case index_of k (length xs) of Some i \<Rightarrow> Inr (xs ! i)
          | None \<Rightarrow> if k = ''length'' then Inr (Num (int (length xs))) else inherited k)
     | Str s \<Rightarrow> (case index_of k (length s) of Some i \<Rightarrow> Inr (Str [s ! i])
          | None \<Rightarrow> if k = ''length'' then Inr (Num (int (length s))) else inherited k)
     | Bool b \<Rightarrow> inherited k
     | Num n \<Rightarrow> inherited k)"

text \<open>\<open>Object.keys(v)\<close>: the own enumerable string keys; a \<open>TypeError\<close> on \<open>undefined\<close>/\<open>null\<close>.\<close>

definition Object_keys :: "val \<Rightarrow> error + string list" where
  "Object_keys v = (case v of
       Undefined \<Rightarrow> Inl TypeError
     | Null \<Rightarrow> Inl TypeError
     | Obj ps \<Rightarrow> Inr (map fst ps)
     | Arr xs \<Rightarrow> Inr (map string_of_nat [0..<length xs])
     | Str s \<Rightarrow> Inr (map string_of_nat [0..<length s])
     | Bool b \<Rightarrow> Inr []
     | Num n \<Rightarrow> Inr [])"

fun join_with :: "string \<Rightarrow> string list \<Rightarrow> string" where
  "join_with sep [] = []"
| "join_with sep [s] = s"
| "join_with sep (s # t # ss) = s @ sep @ join_with sep (t # ss)"

text \<open>String conversion, as a template literal and \<open>split\<close> apply it to their operands.\<close>

fun to_string :: "val \<Rightarrow> string" where
  "to_string Undefined = ''undefined''"
| "to_string Null = ''null''"
| "to_string (Bool b) = (if b then ''true'' else ''false'')"
| "to_string (Num n) = string_of_int n"
| "to_string (Str s) = s"
| "to_string (Arr xs) =
     join_with '','' (map (\<lambda>x. if x = Undefined \<or> x = Null then [] else to_string x) xs)"
| "to_string (Obj ps) = ''[object Object]''"

text \<open>
  \<open>s.split(sep)\<close> for a string separator: the pieces of \<open>s\<close> between the occurrences of
  \<open>sep\<close>, found left to right; an empty separator gives the single characters.
\<close>

function split_from :: "string \<Rightarrow> string \<Rightarrow> string \<Rightarrow> string list" where
  "split_from sep acc [] = [acc]"
| "split_from sep acc (c # cs) =
     (if sep \<noteq> [] \<and> take (length sep) (c # cs) = sep
      then acc # split_from sep [] (drop (length sep) (c # cs))
      else split_from sep (acc @ [c]) cs)"
  by pat_completeness auto
termination
  by (relation "measure (\<lambda>(sep, acc, s). length s)") auto

definition js_split :: "string \<Rightarrow> val \<Rightarrow> string list" where
  "js_split s sep =
     (if sep = Undefined then [s]
      else if to_string sep = [] then map (\<lambda>c. [c]) s
      else split_from (to_string sep) [] s)"


section \<open>The action schema\<close>

subsection \<open>Collaborators that are not part of the file\<close>

text \<open>
  Modelled from the spec: the key table \<open>m\<close> (\<open>mappings.js\<close>) is not among the sources.
  The keys are the documented field names of the schema source format and of the wire
  envelope.
\<close>

definition m_fallback :: string where "m_fallback = ''fallback''"
definition m_entity_path :: string where "m_entity_path = ''entity_path''"
definition m_path_delimiter :: string where "m_path_delimiter = ''path_delimiter''"
definition m_primary_key :: string where "m_primary_key = ''primary_key''"
definition m_collection :: string where "m_collection = ''collection''"
definition m_entity :: string where "m_entity = ''entity''"
definition m_http :: string where "m_http = ''http''"
definition m_return :: string where "m_return = ''return''"
definition m_params :: string where "m_params = ''params''"
definition m_files :: string where "m_files = ''files''"
definition m_relations :: string where "m_relations = ''relations''"
definition m_tags :: string where "m_tags = ''tags''"
definition m_calls :: string where "m_calls = ''calls''"
definition m_deferred_calls :: string where "m_deferred_calls = ''deferred_calls''"
definition m_remote_calls :: string where "m_remote_calls = ''remote_calls''"
definition m_timeout :: string where "m_timeout = ''timeout''"
definition m_is_deprecated :: string where "m_is_deprecated = ''is_deprecated''"
definition m_meta :: string where "m_meta = ''meta''"
definition m_service :: string where "m_service = ''service''"
definition m_command :: string where "m_command = ''command''"
definition m_name :: string where "m_name = ''name''"
definition m_arguments :: string where "m_arguments = ''arguments''"
definition m_action :: string where "m_action = ''action''"
definition m_callee :: string where "m_callee = ''callee''"
definition m_transport :: string where "m_transport = ''transport''"

text \<open>
  Modelled from the spec: \<open>Schema.readProperty\<close> (\<open>schema.js\<close>) is not among the
  sources. An optional field that is not present takes the given default; a field that is
  present keeps its value. The caller has already read a member of \<open>mapping\<close>, so it is
  neither \<open>undefined\<close> nor \<open>null\<close> here.
\<close>

definition readProperty :: "val \<Rightarrow> string \<Rightarrow> val \<Rightarrow> val" where
  "readProperty mapping property defaultValue =
     (case js_get mapping property of
        Inr v \<Rightarrow> (if v = Undefined then defaultValue else v)
      | Inl e \<Rightarrow> defaultValue)"

text \<open>
  The sub-schema classes (\<open>ActionEntity\<close>, \<open>ParamSchema\<close>, \<open>FileSchema\<close>,
  \<open>ActionRelationSchema\<close>, \<open>HttpActionSchema\<close>, \<open>TransportFallbackSchema\<close>,
  \<open>ReturnValueSchema\<close>) are not among the sources either. What they build is left open:
  they are parameters of the model, each taken to return a value.
\<close>

record subschemas =
  TransportFallbackSchema_fromMapping :: "val \<Rightarrow> val"
  ActionEntity_new :: "val \<Rightarrow> val \<Rightarrow> val \<Rightarrow> val \<Rightarrow> val \<Rightarrow> val"
  HttpActionSchema_fromMapping :: "val \<Rightarrow> val"
  ReturnValueSchema_fromMapping :: "val \<Rightarrow> val"
  ParamSchema_fromMapping :: "string \<Rightarrow> val \<Rightarrow> val"
  FileSchema_fromMapping :: "string \<Rightarrow> val \<Rightarrow> val"
  ActionRelationSchema_parseMapping :: "val \<Rightarrow> val"

subsection \<open>Construction\<close>

text \<open>
  The constructor assigns fourteen fields, after \<open>super()\<close>. The base class
  \<open>Schema\<close> is not among the sources; its constructor is called without arguments,
  so nothing of the mapping can reach it, and it is taken to assign no field. The
  instance is the list of the fourteen own properties; a parameter that is \<open>undefined\<close>
  takes its default. Methods live on the prototype and are functions of the model.
\<close>

definition ActionSchema_new ::
  "val \<Rightarrow> val \<Rightarrow> val \<Rightarrow> val \<Rightarrow> val \<Rightarrow> val \<Rightarrow> val \<Rightarrow> val \<Rightarrow> val \<Rightarrow> val \<Rightarrow> val \<Rightarrow> val \<Rightarrow> val \<Rightarrow> val
     \<Rightarrow> object" where
  "ActionSchema_new name timeout actionEntity transportFallbackSchema httpActionSchema
       deprecated params files relations tags calls deferredCalls remoteCalls
       returnValueSchema =
     [(''_name'', name),
      (''_timeout'', dflt (Num 1000) timeout),
      (''_entity'', actionEntity),
      (''_transportFallback'', transportFallbackSchema),
      (''_httpSchema'', httpActionSchema),
      (''_deprecated'', deprecated),
      (''_params'', dflt (Obj []) params),
      (''_files'', dflt (Obj []) files),
      (''_relations'', dflt (Arr []) relations),
      (''_tags'', dflt (Arr []) tags),
      (''_calls'', dflt (Arr []) calls),
      (''_deferredCalls'', dflt (Arr []) deferredCalls),
      (''_remoteCalls'', dflt (Arr []) remoteCalls),
      (''_returnValue'', dflt Null returnValueSchema)]"

text \<open>
  \<open>Object.keys(o).map((k) => build(k, o[k]))\<close>, as \<open>fromMapping\<close> uses it for the
  params and for the files. Every \<open>k\<close> is an own key of \<open>o\<close>, so the read \<open>o[k]\<close>
  yields the own value.
\<close>

definition keyed_map :: "(string \<Rightarrow> val \<Rightarrow> val) \<Rightarrow> val \<Rightarrow> error + val" where
  "keyed_map build v =
     bind_err (Object_keys v) (\<lambda>ks.
       Inr (Arr (map (\<lambda>k. build k (case js_get v k of Inr u \<Rightarrow> u | Inl e \<Rightarrow> Undefined)) ks)))"

text \<open>\<open>v.map(f)\<close> on a value read from the mapping: only an array has \<open>map\<close>.\<close>

definition array_map :: "(val \<Rightarrow> val) \<Rightarrow> val \<Rightarrow> error + val" where
  "array_map f v = (case v of Arr xs \<Rightarrow> Inr (Arr (map f xs)) | _ \<Rightarrow> Inl TypeError)"

definition fromMapping :: "subschemas \<Rightarrow> val \<Rightarrow> val \<Rightarrow> error + object" where
  "fromMapping sub name mapping =
     bind_err (js_get mapping m_fallback) (\<lambda>fallback.
     let transportFallbackSchema = TransportFallbackSchema_fromMapping sub fallback;
         actionEntity = ActionEntity_new sub
           (readProperty mapping m_entity_path (Str []))
           (readProperty mapping m_path_delimiter (Str ''/''))
           (readProperty mapping m_primary_key (Str ''id''))
           (readProperty mapping m_collection (Bool False))
           (readProperty mapping m_entity (Obj []))
     in
     bind_err (js_get mapping m_http) (\<lambda>http.
     bind_err (js_get mapping m_return) (\<lambda>ret.
     let httpActionSchema = HttpActionSchema_fromMapping sub http;
         returnValueSchema = ReturnValueSchema_fromMapping sub ret;
         paramsObject = readProperty mapping m_params (Obj [])
     in
     bind_err (keyed_map (ParamSchema_fromMapping sub) paramsObject) (\<lambda>paramsArray.
     let filesMappingArray = readProperty mapping m_files (Arr [])
     in
     bind_err (keyed_map (FileSchema_fromMapping sub) filesMappingArray) (\<lambda>filesArray.
     bind_err (array_map (ActionRelationSchema_parseMapping sub)
                 (readProperty mapping m_relations (Arr []))) (\<lambda>relations.
     Inr (ActionSchema_new
       name
       (readProperty mapping m_timeout (Num 1000))
       actionEntity
       transportFallbackSchema
       httpActionSchema
       (readProperty mapping m_is_deprecated (Bool False))
       paramsArray
       filesArray
       relations
       (readProperty mapping m_tags (Arr []))
       (readProperty mapping m_calls (Bool False))
       (readProperty mapping m_deferred_calls (Bool False))
       (readProperty mapping m_remote_calls (Bool False))
       returnValueSchema)))))))"

subsection \<open>Accessors\<close>


definition getName :: "object \<Rightarrow> val" where
  "getName this = own this ''_name''"


subsection \<open>Entity resolution\<close>

text \<open>
  The body of the \<open>forEach\<close> in \<open>resolveEntity\<close>: a key whose value in \<open>data\<close> has type
  \<open>undefined\<close> raises; otherwise \<open>data\<close> becomes that value.
\<close>

fun descend :: "val \<Rightarrow> val \<Rightarrow> string list \<Rightarrow> error + val" where
  "descend name data [] = Inr data"
| "descend name data (key # keys) =
     (case js_get data key of
        Inl e \<Rightarrow> Inl e
      | Inr v \<Rightarrow>
          if v = Undefined
          then Inl (Error (''Cannot resolve entity for action: '' @ to_string name))
          else descend name v keys)"

text \<open>
  \<open>resolveEntity\<close> reads the path and the delimiter from the fields \<open>_entityPath\<close> and
  \<open>_pathDelimiter\<close> of the instance itself.
\<close>

definition resolveEntity :: "object \<Rightarrow> val \<Rightarrow> error + val" where
  "resolveEntity this data =
     (let entityPath = own this ''_entityPath'' in
      if \<not> truthy entityPath then Inr data
      else (case entityPath of
              Str p \<Rightarrow> descend (getName this) data (js_split p (own this ''_pathDelimiter''))
            | _ \<Rightarrow> Inl TypeError))"


subsection \<open>Array methods with a callback that may throw\<close>

fun js_filter :: "(val \<Rightarrow> error + val) \<Rightarrow> val list \<Rightarrow> error + val list" where
  "js_filter f [] = Inr []"
| "js_filter f (x # xs) =
     bind_err (f x) (\<lambda>keep.
     bind_err (js_filter f xs) (\<lambda>rest.
     Inr (if truthy keep then x # rest else rest)))"

fun js_map :: "(val \<Rightarrow> error + val) \<Rightarrow> val list \<Rightarrow> error + val list" where
  "js_map f [] = Inr []"
| "js_map f (x # xs) =
     bind_err (f x) (\<lambda>y.
     bind_err (js_map f xs) (\<lambda>ys.
     Inr (y # ys)))"

text \<open>\<open>forEach\<close> runs the callback on every element and drops what it returns.\<close>

fun js_forEach :: "(val \<Rightarrow> error + val) \<Rightarrow> val list \<Rightarrow> error + unit" where
  "js_forEach f [] = Inr ()"
| "js_forEach f (x # xs) = bind_err (f x) (\<lambda>r. js_forEach f xs)"

subsection \<open>Declared calls\<close>

text \<open>
  The queries take a service name and, optionally, a version and an action name, which
  default to \<open>null\<close>. They are strings, for which \<open>!==\<close> compares by value.
\<close>

definition arg :: "string option \<Rightarrow> val" where
  "arg a = (case a of None \<Rightarrow> Null | Some s \<Rightarrow> Str s)"

text \<open>
  The callback that \<open>_hasCalls\<close> gives to \<open>filter\<close>. Each of its three tests returns
  \<open>false\<close>; after them the function body ends, so the call yields \<open>undefined\<close>.
\<close>

definition hasCalls_callback ::
  "string \<Rightarrow> string option \<Rightarrow> string option \<Rightarrow> val \<Rightarrow> error + val" where
  "hasCalls_callback name version action call =
     bind_err (js_get call ''serviceName'') (\<lambda>serviceName.
     bind_err (js_get call ''serviceVersion'') (\<lambda>serviceVersion.
     bind_err (js_get call ''actionName'') (\<lambda>actionName.
     if Str name \<noteq> serviceName then Inr (Bool False)
     else if truthy (arg version) \<and> arg version \<noteq> serviceVersion then Inr (Bool False)
     else if truthy (arg action) \<and> arg action \<noteq> actionName then Inr (Bool False)
     else Inr Undefined)))"

text \<open>The static \<open>_hasCalls(source, name, version, action)\<close>; only an array has \<open>filter\<close>.\<close>

definition ActionSchema_hasCalls ::
  "val \<Rightarrow> string \<Rightarrow> string option \<Rightarrow> string option \<Rightarrow> error + bool" where
  "ActionSchema_hasCalls source name version action =
     (case source of
        Arr cs \<Rightarrow>
          bind_err (js_filter (hasCalls_callback name version action) cs) (\<lambda>matching.
          Inr (length matching > 0))
      | _ \<Rightarrow> Inl TypeError)"

definition hasCall :: "object \<Rightarrow> string \<Rightarrow> string option \<Rightarrow> string option \<Rightarrow> error + bool" where
  "hasCall this name version action =
     ActionSchema_hasCalls (own this ''_calls'') name version action"

definition hasDeferCall ::
  "object \<Rightarrow> string \<Rightarrow> string option \<Rightarrow> string option \<Rightarrow> error + bool" where
  "hasDeferCall this name version action =
     ActionSchema_hasCalls (own this ''_deferredCalls'') name version action"

definition hasRemoteCall_callback ::
  "string \<Rightarrow> string option \<Rightarrow> string option \<Rightarrow> string option \<Rightarrow> val \<Rightarrow> error + val" where
  "hasRemoteCall_callback address name version action call =
     bind_err (js_get call ''publicAddress'') (\<lambda>publicAddress.
     bind_err (js_get call ''serviceName'') (\<lambda>serviceName.
     bind_err (js_get call ''serviceVersion'') (\<lambda>serviceVersion.
     bind_err (js_get call ''actionName'') (\<lambda>actionName.
     if Str address \<noteq> publicAddress then Inr (Bool False)
     else if truthy (arg name) \<and> arg name \<noteq> serviceName then Inr (Bool False)
     else if truthy (arg version) \<and> arg version \<noteq> serviceVersion then Inr (Bool False)
     else if truthy (arg action) \<and> arg action \<noteq> actionName then Inr (Bool False)
     else Inr Undefined))))"

definition hasRemoteCall ::
  "object \<Rightarrow> string \<Rightarrow> string option \<Rightarrow> string option \<Rightarrow> string option \<Rightarrow> error + bool" where
  "hasRemoteCall this address name version action =
     (case own this ''_remoteCalls'' of
        Arr cs \<Rightarrow>
          bind_err (js_filter (hasRemoteCall_callback address name version action) cs)
            (\<lambda>matching. Inr (length matching > 0))
      | _ \<Rightarrow> Inl TypeError)"

subsection \<open>Return value\<close>

definition hasReturn :: "object \<Rightarrow> bool" where
  "hasReturn this = (own this ''_returnValue'' \<noteq> Null)"

text \<open>
  \<open>getReturnType\<close> calls \<open>getType()\<close> on the field. \<open>getType\<close> belongs to
  \<open>ReturnValueSchema\<close>, which is not among the sources: it is a parameter. Reading the
  method off \<open>null\<close> or \<open>undefined\<close> is the engine's \<open>TypeError\<close>.
\<close>

definition getReturnType :: "(val \<Rightarrow> error + val) \<Rightarrow> object \<Rightarrow> error + val" where
  "getReturnType getType this =
     (let returnValue = own this ''_returnValue'' in
      if returnValue = Undefined \<or> returnValue = Null then Inl TypeError
      else getType returnValue)"

subsection \<open>Params and files\<close>

definition getParams :: "object \<Rightarrow> error + val list" where
  "getParams this =
     (case own this ''_params'' of
        Arr ps \<Rightarrow> js_map (\<lambda>param. js_get param ''_name'') ps
      | _ \<Rightarrow> Inl TypeError)"

definition hasParam :: "object \<Rightarrow> string \<Rightarrow> error + bool" where
  "hasParam this name = bind_err (getParams this) (\<lambda>names. Inr (Str name \<in> set names))"

text \<open>
  In \<open>getParamSchema\<close> the \<open>return param\<close> stands inside the arrow function given to
  \<open>forEach\<close>: it is the callback's result. After the loop the method returns \<open>null\<close>.
\<close>

definition getParamSchema :: "object \<Rightarrow> string \<Rightarrow> error + val" where
  "getParamSchema this name =
     bind_err (hasParam this name) (\<lambda>declared.
     if \<not> declared then Inl (Error (''Cannot resolve schema for parameter: '' @ name))
     else
       bind_err
         (case own this ''_params'' of
            Arr ps \<Rightarrow>
              js_forEach (\<lambda>param.
                bind_err (js_get param ''_name'') (\<lambda>n.
                if n = Str name then Inr param else Inr Undefined)) ps
          | _ \<Rightarrow> Inl TypeError)
         (\<lambda>u. Inr Null))"

definition getFiles :: "object \<Rightarrow> error + string list" where
  "getFiles this = Object_keys (own this ''_files'')"

definition hasFile :: "object \<Rightarrow> string \<Rightarrow> error + bool" where
  "hasFile this name =
     bind_err (js_get (own this ''_files'') name) (\<lambda>v. Inr (v \<noteq> Undefined))"

definition getFileSchema :: "object \<Rightarrow> string \<Rightarrow> error + val" where
  "getFileSchema this name =
     bind_err (hasFile this name) (\<lambda>declared.
     if \<not> declared then Inl (Error (''Cannot resolve schema for file parameter: '' @ name))
     else js_get (own this ''_files'') name)"

section \<open>The run-time caller\<close>

text \<open>
  The codec (\<open>msgpack\<close>), the socket library (\<open>zeromq\<close>) and the calling \<open>Action\<close> are
  outside the file. The codec and the action's transport snapshot
  (\<open>action.getTransport()._getAsObject()\<close>) are parameters, each taken to return a value.
  A frame is a sequence of bytes.
\<close>

type_synonym frame = "8 word list"

record externals =
  pack :: "val \<Rightarrow> frame"
  unpack :: "frame \<Rightarrow> val"
  transport_snapshot :: "val \<Rightarrow> val"

text \<open>The callback given to \<open>setTimeout\<close> closes over the callee triple (and the socket).\<close>

record timer =
  t_service :: string
  t_version :: string
  t_targetAction :: string
  t_delay :: val

text \<open>
  What one \<open>call\<close> on a new \<open>ZMQRuntimeCaller\<close> leaves behind: the two fields of the
  instance, the state of the socket it created, and the values its action's
  \<open>_processRuntimeResponse\<close> entry point has been given so far.
\<close>

record runtime =
  r_action :: val
  r_timeout :: "timer option"
  r_listening :: bool
  r_bound :: "string list"
  r_unref :: bool
  r_sent :: "frame list list"
  r_processed :: "val list"

text \<open>The \<open>command\<close> object that \<open>call\<close> builds.\<close>

definition command :: "externals \<Rightarrow> val \<Rightarrow> string \<Rightarrow> string \<Rightarrow> string \<Rightarrow> val \<Rightarrow> val \<Rightarrow> val" where
  "command ext action service version targetAction params files =
     Obj [(m_meta, Obj [(m_service, Str ''service'')]),
          (m_command, Obj
             [(m_name, Str ''runtime-call''),
              (m_arguments, Obj
                 [(m_action, action),
                  (m_callee, Arr [Str service, Str version, Str targetAction]),
                  (m_transport, transport_snapshot ext action),
                  (m_params, params),
                  (m_files, files)])])]"

text \<open>
  \<open>call\<close>: the listener is registered, the socket is bound, the timer is armed and one
  message of two frames is sent; the first frame is the one-character string \<open>\x01\<close>.
\<close>

definition call ::
  "externals \<Rightarrow> val \<Rightarrow> string \<Rightarrow> string \<Rightarrow> string \<Rightarrow> string \<Rightarrow> val \<Rightarrow> val \<Rightarrow> val \<Rightarrow> runtime" where
  "call ext action service version targetAction address params files timeout =
     \<lparr> r_action = action,
       r_timeout = Some \<lparr> t_service = service, t_version = version,
                          t_targetAction = targetAction,
                          t_delay = dflt (Num 1000) timeout \<rparr>,
       r_listening = True,
       r_bound = [address],
       r_unref = False,
       r_sent = [[[0x01],
                  pack ext (command ext action service version targetAction
                              (dflt (Arr []) params) (dflt (Arr []) files))]],
       r_processed = [] \<rparr>"

text \<open>\<open>_parseReply\<close>, the listener of the socket's \<open>message\<close> event.\<close>

definition parseReply :: "externals \<Rightarrow> runtime \<Rightarrow> frame \<Rightarrow> runtime" where
  "parseReply ext rt response =
     rt \<lparr> r_timeout := None,
          r_processed := r_processed rt @ [unpack ext response] \<rparr>"

text \<open>
  The timer's callback: it calls \<open>socket.unref()\<close> and throws. The result is the state it
  leaves and the error that leaves it.
\<close>

definition timeout_callback :: "timer \<Rightarrow> runtime \<Rightarrow> runtime \<times> error" where
  "timeout_callback t rt =
     (rt \<lparr> r_unref := True \<rparr>,
      Error (''Run-time call timed out for '' @ t_service t @ '' ('' @ t_version t @ '') ''
             @ [CHR 0x22] @ t_targetAction t @ [CHR 0x22]))"

text \<open>
  The timer comes due: a timer that has been cleared does nothing; an armed one runs its
  callback once, on a stack of its own. No frame of this code is below the callback, so
  an error it throws is caught by none of it: it is returned here as the uncaught error.
\<close>

definition timer_due :: "runtime \<Rightarrow> runtime \<times> error option" where
  "timer_due rt =
     (case r_timeout rt of
        None \<Rightarrow> (rt, None)
      | Some t \<Rightarrow>
          (case timeout_callback t (rt \<lparr> r_timeout := None \<rparr>) of
             (rt', e) \<Rightarrow> (rt', Some e)))"

text \<open>
  After \<open>call\<close> has returned, the host runs the two handlers as their events occur: a
  frame on the socket goes to the registered \<open>message\<close> listener, and the timer coming
  due runs the timer's callback. \<open>call\<close> registers the listener with \<open>on\<close>, and no
  statement of the file removes it or closes the socket.
\<close>

datatype event = Message frame | TimerDue

definition dispatch :: "externals \<Rightarrow> runtime \<Rightarrow> event \<Rightarrow> runtime \<times> error option" where
  "dispatch ext rt ev =
     (case ev of
        Message response \<Rightarrow>
          (if r_listening rt then (parseReply ext rt response, None) else (rt, None))
      | TimerDue \<Rightarrow> timer_due rt)"

text \<open>
  A sequence of events, with the errors that left a callback uncaught. The host is taken
  to go on dispatching after such an error; whether it does is its own policy.
\<close>

fun run :: "externals \<Rightarrow> runtime \<Rightarrow> event list \<Rightarrow> runtime \<times> error list" where
  "run ext rt [] = (rt, [])"
| "run ext rt (ev # evs) =
     (case dispatch ext rt ev of
        (rt', e) \<Rightarrow>
          (case run ext rt' evs of
             (rt'', es) \<Rightarrow> (rt'', (case e of None \<Rightarrow> [] | Some x \<Rightarrow> [x]) @ es)))"


section \<open>Observing the model\<close>

text \<open>Reading a member path \<open>v.k1.k2...\<close> of a value.\<close>

fun js_path :: "val \<Rightarrow> string list \<Rightarrow> error + val" where
  "js_path v [] = Inr v"
| "js_path v (k # ks) = bind_err (js_get v k) (\<lambda>u. js_path u ks)"


section \<open>Basic facts\<close>

lemmas m_keys = m_fallback_def m_entity_path_def m_path_delimiter_def m_primary_key_def
  m_collection_def m_entity_def m_http_def m_return_def m_params_def m_files_def
  m_relations_def m_tags_def m_calls_def m_deferred_calls_def m_remote_calls_def
  m_timeout_def m_is_deprecated_def

lemmas envelope_keys = m_meta_def m_service_def m_command_def m_name_def m_arguments_def
  m_action_def m_callee_def m_transport_def m_params_def m_files_def

lemma bind_err_Inr_iff: "bind_err r f = Inr y \<longleftrightarrow> (\<exists>v. r = Inr v \<and> f v = Inr y)"
  by (cases r) (simp_all add: bind_err_def)

lemma bind_err_simps [simp]: "bind_err (Inl e) f = Inl e" "bind_err (Inr v) f = f v"
  by (simp_all add: bind_err_def)

lemma js_get_Obj_own: "map_of ps k = Some v \<Longrightarrow> js_get (Obj ps) k = Inr v"
  by (simp add: js_get_def)

lemma readProperty_Obj:
  "readProperty (Obj ps) k d =
     (case map_of ps k of Some v \<Rightarrow> if v = Undefined then d else v | None \<Rightarrow> d)"
  by (simp add: readProperty_def js_get_def inherited_def split: option.splits)

text \<open>The fields an instance has, and two it does not have.\<close>

lemma own_new_fields:
  "own (ActionSchema_new n t e f h d ps fs rs tg c dc rc r) ''_name'' = n"
  "own (ActionSchema_new n t e f h d ps fs rs tg c dc rc r) ''_timeout'' = dflt (Num 1000) t"
  "own (ActionSchema_new n t e f h d ps fs rs tg c dc rc r) ''_deprecated'' = d"
  "own (ActionSchema_new n t e f h d ps fs rs tg c dc rc r) ''_params'' = dflt (Obj []) ps"
  "own (ActionSchema_new n t e f h d ps fs rs tg c dc rc r) ''_files'' = dflt (Obj []) fs"
  "own (ActionSchema_new n t e f h d ps fs rs tg c dc rc r) ''_calls'' = dflt (Arr []) c"
  "own (ActionSchema_new n t e f h d ps fs rs tg c dc rc r) ''_deferredCalls'' = dflt (Arr []) dc"
  "own (ActionSchema_new n t e f h d ps fs rs tg c dc rc r) ''_remoteCalls'' = dflt (Arr []) rc"
  "own (ActionSchema_new n t e f h d ps fs rs tg c dc rc r) ''_returnValue'' = dflt Null r"
  by (simp_all add: own_def ActionSchema_new_def)

lemma own_new_entityPath:
  "own (ActionSchema_new n t e f h d ps fs rs tg c dc rc r) ''_entityPath'' = Undefined"
  "own (ActionSchema_new n t e f h d ps fs rs tg c dc rc r) ''_pathDelimiter'' = Undefined"
  by (simp_all add: own_def ActionSchema_new_def)

text \<open>Whatever the mapping, a schema that \<open>fromMapping\<close> returns has this shape.\<close>

lemma fromMapping_shape:
  assumes "fromMapping sub name mapping = Inr this"
  shows "\<exists>e f h r ps fs rs.
    this = ActionSchema_new name (readProperty mapping m_timeout (Num 1000)) e f h
             (readProperty mapping m_is_deprecated (Bool False)) (Arr ps) (Arr fs) (Arr rs)
             (readProperty mapping m_tags (Arr []))
             (readProperty mapping m_calls (Bool False))
             (readProperty mapping m_deferred_calls (Bool False))
             (readProperty mapping m_remote_calls (Bool False)) r"
  using assms
  unfolding fromMapping_def Let_def keyed_map_def array_map_def
  by (clarsimp simp: bind_err_Inr_iff split: val.splits) blast

lemma fromMapping_Obj:
  "fromMapping sub name (Obj ps) =
     bind_err (keyed_map (ParamSchema_fromMapping sub)
                 (readProperty (Obj ps) m_params (Obj []))) (\<lambda>paramsArray.
     bind_err (keyed_map (FileSchema_fromMapping sub)
                 (readProperty (Obj ps) m_files (Arr []))) (\<lambda>filesArray.
     bind_err (array_map (ActionRelationSchema_parseMapping sub)
                 (readProperty (Obj ps) m_relations (Arr []))) (\<lambda>relations.
     Inr (ActionSchema_new name
       (readProperty (Obj ps) m_timeout (Num 1000))
       (ActionEntity_new sub
           (readProperty (Obj ps) m_entity_path (Str []))
           (readProperty (Obj ps) m_path_delimiter (Str ''/''))
           (readProperty (Obj ps) m_primary_key (Str ''id''))
           (readProperty (Obj ps) m_collection (Bool False))
           (readProperty (Obj ps) m_entity (Obj [])))
       (TransportFallbackSchema_fromMapping sub (own ps m_fallback))
       (HttpActionSchema_fromMapping sub (own ps m_http))
       (readProperty (Obj ps) m_is_deprecated (Bool False))
       paramsArray filesArray relations
       (readProperty (Obj ps) m_tags (Arr []))
       (readProperty (Obj ps) m_calls (Bool False))
       (readProperty (Obj ps) m_deferred_calls (Bool False))
       (readProperty (Obj ps) m_remote_calls (Bool False))
       (ReturnValueSchema_fromMapping sub (own ps m_return))))))"
  by (simp add: fromMapping_def Let_def js_get_def inherited_def builtin_member_names_def
      m_keys own_def split: option.splits)

section \<open>Entity resolution\<close>

lemma resolveEntity_new:
  "resolveEntity (ActionSchema_new n t e f h d ps fs rs tg c dc rc r) data = Inr data"
  by (simp add: resolveEntity_def own_new_entityPath truthy_def)

text \<open>
  On every schema that \<open>fromMapping\<close> builds, whatever entity path the mapping configures,
  \<open>resolveEntity\<close> is the identity: the two fields it reads are never assigned.
\<close>

lemma resolveEntity_fromMapping:
  "fromMapping sub name mapping = Inr this \<Longrightarrow> resolveEntity this data = Inr data"
  by (auto dest!: fromMapping_shape simp: resolveEntity_new)

text \<open>
  The descent itself works on an object that does carry the two fields: the path is
  split, every segment is followed, and a missing segment raises the error that names
  the action.
\<close>

lemma resolveEntity_with_fields:
  "resolveEntity
     [(''_name'', Str ''act''), (''_entityPath'', Str ''a/b''), (''_pathDelimiter'', Str ''/'')]
     (Obj [(''a'', Obj [(''b'', Obj [(''x'', Num 1)])])]) = Inr (Obj [(''x'', Num 1)])"
  "resolveEntity
     [(''_name'', Str ''act''), (''_entityPath'', Str ''a/b''), (''_pathDelimiter'', Str ''/'')]
     (Obj [(''a'', Obj [])]) = Inl (Error ''Cannot resolve entity for action: act'')"
  by (simp_all add: resolveEntity_def own_def truthy_def js_split_def js_get_def getName_def
      inherited_def builtin_member_names_def)

text \<open>
  Claim C1. A schema built by \<open>fromMapping\<close> with entity path \<open>a/b\<close> and delimiter
  \<open>/\<close> is asked to resolve the entity in \<open>{a: {b: {x: 1}}}\<close> and in \<open>{a: {}}\<close>. The
  claim expects \<open>{x: 1}\<close> for the first and a resolution error for the second. The code
  returns the data unchanged both times.
\<close>

theorem C1_resolveEntity_ignores_entity_path:
  "bind_err (fromMapping sub (Str ''act'')
       (Obj [(''entity_path'', Str ''a/b''), (''path_delimiter'', Str ''/'')]))
     (\<lambda>this. resolveEntity this (Obj [(''a'', Obj [(''b'', Obj [(''x'', Num 1)])])]))
   = Inr (Obj [(''a'', Obj [(''b'', Obj [(''x'', Num 1)])])])
   \<and>
   bind_err (fromMapping sub (Str ''act'')
       (Obj [(''entity_path'', Str ''a/b''), (''path_delimiter'', Str ''/'')]))
     (\<lambda>this. resolveEntity this (Obj [(''a'', Obj [])]))
   = Inr (Obj [(''a'', Obj [])])"
  by (simp add: fromMapping_Obj readProperty_Obj m_keys keyed_map_def array_map_def
      Object_keys_def resolveEntity_new dflt_def)


section \<open>Declared calls\<close>

text \<open>The callbacks given to \<open>filter\<close> never return a truthy value.\<close>

lemma hasCalls_callback_falsy:
  "hasCalls_callback name version action cl = Inr keep \<Longrightarrow> \<not> truthy keep"
  by (auto simp: hasCalls_callback_def bind_err_Inr_iff truthy_def split: if_splits)

lemma hasRemoteCall_callback_falsy:
  "hasRemoteCall_callback address name version action cl = Inr keep \<Longrightarrow> \<not> truthy keep"
  by (auto simp: hasRemoteCall_callback_def bind_err_Inr_iff truthy_def split: if_splits)

lemma js_filter_falsy:
  assumes "\<And>x keep. f x = Inr keep \<Longrightarrow> \<not> truthy keep"
  shows "js_filter f xs = Inr ms \<Longrightarrow> ms = []"
proof (induction xs arbitrary: ms)
  case Nil
  then show ?case by simp
next
  case (Cons x xs)
  from Cons.prems obtain keep rest
    where k: "f x = Inr keep" and r: "js_filter f xs = Inr rest"
      and m: "ms = (if truthy keep then x # rest else rest)"
    by (auto simp: bind_err_Inr_iff)
  from assms [OF k] m have "ms = rest" by simp
  with Cons.IH [OF r] show ?case by simp
qed

text \<open>So no query about declared calls ever answers \<open>true\<close>, whatever is declared.\<close>

lemma ActionSchema_hasCalls_never_true:
  "ActionSchema_hasCalls source name version action \<noteq> Inr True"
proof
  assume "ActionSchema_hasCalls source name version action = Inr True"
  then obtain cs ms where "source = Arr cs"
    and f: "js_filter (hasCalls_callback name version action) cs = Inr ms"
    and "length ms > 0"
    by (auto simp: ActionSchema_hasCalls_def bind_err_Inr_iff split: val.splits)
  moreover from f have "ms = []"
    by (rule js_filter_falsy [rotated]) (rule hasCalls_callback_falsy)
  ultimately show False by simp
qed

lemma hasCall_never_true: "hasCall this name version action \<noteq> Inr True"
  by (simp add: hasCall_def ActionSchema_hasCalls_never_true)

lemma hasDeferCall_never_true: "hasDeferCall this name version action \<noteq> Inr True"
  by (simp add: hasDeferCall_def ActionSchema_hasCalls_never_true)

lemma hasRemoteCall_never_true: "hasRemoteCall this address name version action \<noteq> Inr True"
proof
  assume "hasRemoteCall this address name version action = Inr True"
  then obtain cs ms where
    f: "js_filter (hasRemoteCall_callback address name version action) cs = Inr ms"
    and "length ms > 0"
    by (auto simp: hasRemoteCall_def bind_err_Inr_iff split: val.splits)
  moreover from f have "ms = []"
    by (rule js_filter_falsy [rotated]) (rule hasRemoteCall_callback_falsy)
  ultimately show False by simp
qed

text \<open>
  Claim C2. With the declared calls \<open>[{a, 1.0, x}]\<close> the claim expects \<open>hasCall("a")\<close>
  to be true, and \<open>hasDeferCall\<close> to match alike on the deferred calls. The record agrees
  with every field the query supplies, and the code answers \<open>false\<close>: for \<open>hasCall("a")\<close>,
  and for \<open>hasDeferCall("a", "1.0", "x")\<close>.
\<close>

theorem C2_hasCall_reports_no_match:
  "hasCall (ActionSchema_new (Str ''act'') t e f h d ps fs rs tg
       (Arr [Obj [(''serviceName'', Str ''a''), (''serviceVersion'', Str ''1.0''),
                  (''actionName'', Str ''x'')]]) dc rc r) ''a'' None None = Inr False
   \<and>
   hasDeferCall (ActionSchema_new (Str ''act'') t e f h d ps fs rs tg c
       (Arr [Obj [(''serviceName'', Str ''a''), (''serviceVersion'', Str ''1.0''),
                  (''actionName'', Str ''x'')]]) rc r) ''a'' (Some ''1.0'') (Some ''x'')
     = Inr False"
  by (simp add: hasCall_def hasDeferCall_def own_new_fields dflt_def ActionSchema_hasCalls_def
      hasCalls_callback_def js_get_def arg_def truthy_def)

text \<open>
  Claim C7. A mapping without the keys \<open>calls\<close>, \<open>deferred_calls\<close> and \<open>remote_calls\<close>
  is loaded. The claim expects the three sequences to be empty and every query to answer
  \<open>false\<close>. The code stores \<open>false\<close> in each of the three fields, and each query ends in
  a \<open>TypeError\<close>, since \<open>false\<close> has no \<open>filter\<close>.
\<close>

theorem C7_absent_calls_make_queries_fail:
  "bind_err (fromMapping sub (Str ''act'') (Obj [])) (\<lambda>this. Inr (own this ''_calls''))
     = Inr (Bool False)
   \<and> bind_err (fromMapping sub (Str ''act'') (Obj [])) (\<lambda>this. hasCall this ''a'' None None)
     = Inl TypeError
   \<and> bind_err (fromMapping sub (Str ''act'') (Obj []))
       (\<lambda>this. hasDeferCall this ''a'' None None)
     = Inl TypeError
   \<and> bind_err (fromMapping sub (Str ''act'') (Obj []))
       (\<lambda>this. hasRemoteCall this ''tcp://x'' None None None)
     = Inl TypeError"
  by (simp add: fromMapping_Obj readProperty_Obj m_keys keyed_map_def array_map_def
      Object_keys_def own_new_fields dflt_def hasCall_def hasDeferCall_def hasRemoteCall_def
      ActionSchema_hasCalls_def)

text \<open>The same for every mapping that leaves the key \<open>calls\<close> out.\<close>

lemma hasCall_without_calls_key:
  assumes "fromMapping sub name (Obj ps) = Inr this" and "map_of ps m_calls = None"
  shows "hasCall this service version action = Inl TypeError"
proof -
  from fromMapping_shape [OF assms(1)] assms(2)
  have "own this ''_calls'' = Bool False"
    by (auto simp: own_new_fields readProperty_Obj dflt_def)
  then show ?thesis
    by (simp add: hasCall_def ActionSchema_hasCalls_def)
qed

section \<open>Params and files\<close>

lemma js_forEach_after_map:
  "js_map (\<lambda>x. js_get x k) xs = Inr ns \<Longrightarrow>
   js_forEach (\<lambda>x. bind_err (js_get x k) (\<lambda>n. if n = w then Inr x else Inr Undefined)) xs
     = Inr ()"
proof (induction xs arbitrary: ns)
  case Nil
  then show ?case by simp
next
  case (Cons x xs)
  from Cons.prems obtain n ns' where n: "js_get x k = Inr n"
    and m: "js_map (\<lambda>x. js_get x k) xs = Inr ns'"
    by (auto simp: bind_err_Inr_iff)
  from Cons.IH [OF m] n show ?case by simp
qed

text \<open>The lookup fails exactly on the undeclared names; on a declared name it is \<open>null\<close>.\<close>

lemma getParamSchema_undeclared:
  "hasParam this name = Inr False \<Longrightarrow>
   getParamSchema this name = Inl (Error (''Cannot resolve schema for parameter: '' @ name))"
  by (simp add: getParamSchema_def)

lemma getParamSchema_declared:
  assumes "hasParam this name = Inr True"
  shows "getParamSchema this name = Inr Null"
proof -
  from assms obtain names where g: "getParams this = Inr names"
    by (auto simp: hasParam_def bind_err_Inr_iff)
  then obtain ps where p: "own this ''_params'' = Arr ps"
    and m: "js_map (\<lambda>param. js_get param ''_name'') ps = Inr names"
    by (cases "own this ''_params''") (simp_all add: getParams_def)
  from js_forEach_after_map [OF m] assms p show ?thesis
    by (simp add: getParamSchema_def)
qed

text \<open>
  Claim C3. A schema declares the param \<open>p\<close>. The claim expects \<open>getParamSchema("p")\<close> to
  return the schema whose name is \<open>p\<close>, not \<open>null\<close>. \<open>hasParam("p")\<close> is true, and
  the code returns \<open>null\<close>.
\<close>

theorem C3_getParamSchema_returns_null:
  "hasParam (ActionSchema_new (Str ''act'') t e f h d (Arr [Obj [(''_name'', Str ''p'')]])
       fs rs tg c dc rc r) ''p'' = Inr True
   \<and>
   getParamSchema (ActionSchema_new (Str ''act'') t e f h d (Arr [Obj [(''_name'', Str ''p'')]])
       fs rs tg c dc rc r) ''p'' = Inr Null"
  by (simp add: hasParam_def getParams_def getParamSchema_def own_new_fields dflt_def js_get_def)

text \<open>
  Claim C4. A mapping declares the file \<open>avatar\<close>. The claim expects \<open>hasFile("avatar")\<close>
  to be true and \<open>getFileSchema("avatar")\<close> to return its schema. \<open>fromMapping\<close> stores the
  file schemas in an array, which the two methods index by name: \<open>hasFile("avatar")\<close> is
  false, \<open>getFileSchema("avatar")\<close> raises, and the names \<open>getFiles\<close> reports are the
  positions.
\<close>

theorem C4_hasFile_misses_declared_name:
  "bind_err (fromMapping sub (Str ''act'') (Obj [(''files'', Obj [(''avatar'', Obj [])])]))
     (\<lambda>this. hasFile this ''avatar'') = Inr False
   \<and>
   bind_err (fromMapping sub (Str ''act'') (Obj [(''files'', Obj [(''avatar'', Obj [])])]))
     (\<lambda>this. getFileSchema this ''avatar'')
     = Inl (Error ''Cannot resolve schema for file parameter: avatar'')
   \<and>
   bind_err (fromMapping sub (Str ''act'') (Obj [(''files'', Obj [(''avatar'', Obj [])])]))
     (\<lambda>this. getFiles this) = Inr [''0'']"
  by (simp add: fromMapping_Obj readProperty_Obj m_keys keyed_map_def array_map_def
      Object_keys_def own_new_fields dflt_def hasFile_def getFileSchema_def js_get_def
      getFiles_def index_of_def digit_def inherited_def builtin_member_names_def
      string_of_nat.simps [of 0])


text \<open>
  On a schema from \<open>fromMapping\<close>, the only names \<open>hasFile\<close> can accept, the members
  of the built-in prototypes apart, are the decimal positions in the array of files.
\<close>

lemma length_builtin: "''length'' \<in> set builtin_member_names"
  by (simp add: builtin_member_names_def)

lemma js_get_Arr_plain:
  assumes "k \<notin> set builtin_member_names"
  shows "js_get (Arr xs) k =
     (case index_of k (length xs) of Some i \<Rightarrow> Inr (xs ! i) | None \<Rightarrow> Inr Undefined)"
proof -
  from assms length_builtin have "k \<noteq> ''length''" by blast
  with assms show ?thesis
    by (simp add: js_get_def inherited_def split: option.splits)
qed

lemma hasFile_only_positions:
  assumes "fromMapping sub name mapping = Inr this"
    and "hasFile this k = Inr True" and "k \<notin> set builtin_member_names"
  shows "\<exists>i. k = string_of_nat i"
proof -
  from fromMapping_shape [OF assms(1)] obtain fs where f: "own this ''_files'' = Arr fs"
    by (auto simp: own_new_fields dflt_def)
  have "\<exists>i. index_of k (length fs) = Some i"
  proof (cases "index_of k (length fs)")
    case None
    with assms(2) f show ?thesis
      by (simp add: hasFile_def js_get_Arr_plain [OF assms(3)])
  next
    case (Some i)
    then show ?thesis by simp
  qed
  then obtain i where "index_of k (length fs) = Some i" ..
  then have "string_of_nat i = k"
    by (auto simp: index_of_def find_Some_iff)
  then show ?thesis by blast
qed

section \<open>Timeout, deprecation and return type\<close>



text \<open>
  Claim C10. On a schema without a return-value schema, that is, when \<open>hasReturn()\<close> is
  false, \<open>getReturnType()\<close> fails instead of returning a value, whatever \<open>getType\<close> does.
\<close>

theorem C10_getReturnType_needs_hasReturn:
  assumes "\<not> hasReturn this"
  shows "getReturnType getType this = Inl TypeError"
  using assms by (simp add: hasReturn_def getReturnType_def)

theorem C10_getReturnType_witness:
  "\<not> hasReturn (ActionSchema_new (Str ''act'') Undefined Undefined Undefined Undefined
        Undefined Undefined Undefined Undefined Undefined Undefined Undefined Undefined Undefined)
   \<and> getReturnType (\<lambda>v. Inr (Str ''string''))
       (ActionSchema_new (Str ''act'') Undefined Undefined Undefined Undefined
        Undefined Undefined Undefined Undefined Undefined Undefined Undefined Undefined Undefined)
     = Inl TypeError"
proof -
  have h: "\<not> hasReturn (ActionSchema_new (Str ''act'') Undefined Undefined Undefined Undefined
        Undefined Undefined Undefined Undefined Undefined Undefined Undefined Undefined Undefined)"
    by (simp add: hasReturn_def own_new_fields dflt_def)
  from h C10_getReturnType_needs_hasReturn [OF h, of "\<lambda>v. Inr (Str ''string'')"]
  show ?thesis by simp
qed

section \<open>The run-time call\<close>

text \<open>
  Claim C9. Every \<open>call\<close> sends one message of two frames: the single byte \<open>0x01\<close>, then
  the packed envelope. The envelope names the command \<open>runtime-call\<close>, and its arguments
  hold the calling action, the callee triple, the action's transport snapshot, and the
  params and files that were passed on.
\<close>

theorem C9_call_sends_control_byte_and_envelope:
  "r_sent (call ext action service version targetAction address params files timeout)
     = [[[0x01], pack ext (command ext action service version targetAction
                             (dflt (Arr []) params) (dflt (Arr []) files))]]
   \<and> js_path (command ext action service version targetAction p f)
        [''meta'', ''service''] = Inr (Str ''service'')
   \<and> js_path (command ext action service version targetAction p f)
        [''command'', ''name''] = Inr (Str ''runtime-call'')
   \<and> js_path (command ext action service version targetAction p f)
        [''command'', ''arguments'', ''action''] = Inr action
   \<and> js_path (command ext action service version targetAction p f)
        [''command'', ''arguments'', ''callee'']
        = Inr (Arr [Str service, Str version, Str targetAction])
   \<and> js_path (command ext action service version targetAction p f)
        [''command'', ''arguments'', ''transport''] = Inr (transport_snapshot ext action)
   \<and> js_path (command ext action service version targetAction p f)
        [''command'', ''arguments'', ''params''] = Inr p
   \<and> js_path (command ext action service version targetAction p f)
        [''command'', ''arguments'', ''files''] = Inr f"
  by (simp add: call_def command_def envelope_keys js_get_Obj_own)

text \<open>The listener clears the timer and hands the decoded reply to the action once.\<close>

lemma parseReply_after_call:
  "r_timeout (parseReply ext
      (call ext action service version targetAction address params files timeout) response)
     = None
   \<and> r_processed (parseReply ext
      (call ext action service version targetAction address params files timeout) response)
     = [unpack ext response]"
  by (simp add: parseReply_def call_def)

text \<open>
  Claim C6. The peer never replies and the timer comes due. The claim expects a failure
  that names the callee triple and reaches the caller's error handling as a recoverable
  error. The error does name the triple, but it is thrown inside the timer's callback:
  \<open>call\<close> has returned long before, the action's response entry point is given nothing,
  and the error leaves the callback uncaught.
\<close>

theorem C6_timeout_error_is_thrown_in_the_timer_callback:
  "snd (timer_due (call ext action service version targetAction address params files timeout))
     = Some (Error (''Run-time call timed out for '' @ service @ '' ('' @ version @ '') ''
                    @ [CHR 0x22] @ targetAction @ [CHR 0x22]))
   \<and> r_processed (fst (timer_due
        (call ext action service version targetAction address params files timeout))) = []
   \<and> snd (timer_due (call ext (Str ''caller'') ''users'' ''1.0'' ''read'' ''ipc://reply''
             Undefined Undefined (Num 1000)))
     = Some (Error (''Run-time call timed out for users (1.0) '' @ [CHR 0x22] @ ''read''
                    @ [CHR 0x22]))"
  by (simp add: timer_due_def call_def timeout_callback_def)


text \<open>
  As long as the listener is registered, and it always is after \<open>call\<close>, every frame
  of a sequence of events reaches the action's entry point, wherever the timer falls.
\<close>

lemma dispatch_listening:
  "r_listening rt \<Longrightarrow> r_listening (fst (dispatch ext rt ev))"
  by (cases ev)
     (simp_all add: dispatch_def parseReply_def timer_due_def timeout_callback_def
        split: option.splits)

lemma dispatch_processed:
  "r_listening rt \<Longrightarrow>
   r_processed (fst (dispatch ext rt ev))
     = r_processed rt @ (case ev of Message response \<Rightarrow> [unpack ext response] | TimerDue \<Rightarrow> [])"
  by (cases ev)
     (simp_all add: dispatch_def parseReply_def timer_due_def timeout_callback_def
        split: option.splits)

lemma run_delivers_every_frame:
  "r_listening rt \<Longrightarrow>
   r_processed (fst (run ext rt evs))
     = r_processed rt
       @ concat (map (\<lambda>ev. case ev of Message response \<Rightarrow> [unpack ext response]
                                 | TimerDue \<Rightarrow> []) evs)"
proof (induction evs arbitrary: rt)
  case Nil
  then show ?case by simp
next
  case (Cons ev evs)
  obtain rt' e where d: "dispatch ext rt ev = (rt', e)" by (cases "dispatch ext rt ev")
  with dispatch_listening [OF Cons.prems, of ext ev] have l: "r_listening rt'" by simp
  from d dispatch_processed [OF Cons.prems, of ext ev]
  have p: "r_processed rt' = r_processed rt
      @ (case ev of Message response \<Rightarrow> [unpack ext response] | TimerDue \<Rightarrow> [])"
    by simp
  from Cons.IH [OF l] d p show ?case
    by (simp add: split_beta)
qed

text \<open>
  Claim C5. Reply and timeout are to exclude each other: a reply before the timer is
  delivered once and cancels the timer; a reply after the timer has come due is to be
  dropped, so that the action's entry point is entered at most once. The first half
  holds: after a reply the timer is cleared, and its coming due does nothing. The second
  half does not. The listener stays registered and has no guard, so a second frame is
  delivered as well, and so is a frame that follows the timeout.
\<close>

theorem C5_late_and_repeated_replies_are_delivered:
  "run ext (call ext action service version targetAction address params files timeout)
       [Message reply, TimerDue]
     = (parseReply ext
          (call ext action service version targetAction address params files timeout) reply,
        [])
   \<and> r_processed (fst (run ext
        (call ext action service version targetAction address params files timeout)
        [Message reply, TimerDue])) = [unpack ext reply]
   \<and> r_processed (fst (run ext
        (call ext action service version targetAction address params files timeout)
        [Message reply, Message reply'])) = [unpack ext reply, unpack ext reply']
   \<and> r_processed (fst (run ext
        (call ext action service version targetAction address params files timeout)
        [TimerDue, Message reply])) = [unpack ext reply]
   \<and> snd (run ext
        (call ext action service version targetAction address params files timeout)
        [TimerDue, Message reply])
     = [Error (''Run-time call timed out for '' @ service @ '' ('' @ version @ '') ''
               @ [CHR 0x22] @ targetAction @ [CHR 0x22])]"
  by (simp add: dispatch_def timer_due_def timeout_callback_def parseReply_def call_def)

end
